theory Spec2Isabelle
  imports Main
begin

section \<open>Machine integers and time\<close>

text \<open>
  Go's \<open>int\<close> is a 64-bit two's complement integer on the platforms the program is
  built for. It is modelled as an \<open>int\<close>, and every operation of the source that can
  leave the 64-bit range (the increment of the elapsed seconds, \<open>+=\<close> on the minute
  totals, \<open>* 60\<close>) is wrapped by \<open>int64\<close>.
  Go's \<open>/\<close> truncates toward zero and \<open>%\<close> takes the sign of the dividend.
\<close>

definition int64 :: "int \<Rightarrow> int" where
  "int64 x = (x + 9223372036854775808) mod 18446744073709551616 - 9223372036854775808"

definition in_int64 :: "int \<Rightarrow> bool" where
  "in_int64 x = (- 9223372036854775808 \<le> x \<and> x < 9223372036854775808)"

definition go_div :: "int \<Rightarrow> int \<Rightarrow> int" where
  "go_div a b = (if (a < 0) = (b < 0) then \<bar>a\<bar> div \<bar>b\<bar> else - (\<bar>a\<bar> div \<bar>b\<bar>))"

definition go_mod :: "int \<Rightarrow> int \<Rightarrow> int" where
  "go_mod a b = a - b * go_div a b"

text \<open>
  A \<open>time.Time\<close> is an instant, modelled as the number of nanoseconds since Go's zero
  time (January 1, year 1, 00:00:00 UTC); \<open>IsZero\<close> holds of that instant only.
  \<open>Time.Sub\<close> returns a \<open>Duration\<close> (64-bit nanoseconds) and saturates at the ends of
  the range. \<open>Duration.Minutes\<close> and \<open>Duration.Seconds\<close> return a float64 that the
  source converts back with \<open>int(...)\<close>, which truncates toward zero; the model takes
  the float64 at its exact value, so the conversion is the truncated quotient.
\<close>

type_synonym gotime = int

definition IsZero :: "gotime \<Rightarrow> bool" where
  "IsZero t = (t = 0)"

definition Sub :: "gotime \<Rightarrow> gotime \<Rightarrow> int" where
  "Sub t u = (let d = t - u in
     if d < - 9223372036854775808 then - 9223372036854775808
     else if 9223372036854775807 < d then 9223372036854775807
     else d)"

definition Minutes :: "int \<Rightarrow> int" where
  "Minutes d = go_div d 60000000000"

definition Seconds :: "int \<Rightarrow> int" where
  "Seconds d = go_div d 1000000000"

section \<open>Data model (internal/models/session.go)\<close>

record Session =
  ID :: string
  StartTime :: gotime
  EndTime :: gotime
  Duration :: int
  Completed :: bool
  Date :: string
  Week :: int
  Month :: string
  Year :: int
  Active :: bool
  ElapsedSeconds :: int
  Paused :: bool

record Config =
  SessionDuration :: int
  DailySessionGoal :: int
  WorkStartHour :: int
  WorkEndHour :: int

definition DefaultConfig :: Config where
  "DefaultConfig = \<lparr>SessionDuration = 60, DailySessionGoal = 8,
     WorkStartHour = 8, WorkEndHour = 16\<rparr>"

record DayStats =
  ds_Date :: string
  ds_SessionsCount :: int
  ds_TotalMinutes :: int
  ds_Sessions :: "Session list"

record WeekStats =
  ws_Week :: int
  ws_Year :: int
  ws_SessionsCount :: int
  ws_TotalMinutes :: int
  ws_DailyStats :: "DayStats list"

section \<open>Storage (package storage)\<close>

text \<open>
  The two persisted files are the state of the store. A file is missing, unreadable
  (\<open>os.ReadFile\<close> fails with an error other than not-exist), holds bytes that
  \<open>json.Unmarshal\<close> rejects, or holds the JSON of a value. \<open>os.WriteFile\<close> succeeds
  exactly when the data directory is writable; a failed write leaves the file as it was.
  Marshalling these record types does not fail.
\<close>

datatype 'a diskfile = Missing | Unreadable | Malformed | Stored 'a

datatype error = ReadError | UnmarshalError | WriteError

record Storage =
  sessionsFile :: "Session list diskfile"
  configFile :: "Config diskfile"
  writable :: bool

definition writeSessions :: "Storage \<Rightarrow> Session list \<Rightarrow> Storage \<times> error option" where
  "writeSessions st xs =
     (if writable st then (st\<lparr>sessionsFile := Stored xs\<rparr>, None) else (st, Some WriteError))"

definition GetAllSessions :: "Storage \<Rightarrow> error + Session list" where
  "GetAllSessions st =
     (case sessionsFile st of
        Missing \<Rightarrow> Inr []
      | Unreadable \<Rightarrow> Inl ReadError
      | Malformed \<Rightarrow> Inl UnmarshalError
      | Stored xs \<Rightarrow> Inr xs)"

text \<open>The loop of \<open>SaveSession\<close>: overwrite the first record with the same ID and stop.\<close>

fun replaceFirst :: "Session list \<Rightarrow> Session \<Rightarrow> Session list \<times> bool" where
  "replaceFirst [] s = ([], False)"
| "replaceFirst (x # xs) s =
     (if ID x = ID s then (s # xs, True)
      else (case replaceFirst xs s of (ys, found) \<Rightarrow> (x # ys, found)))"

definition upsert :: "Session list \<Rightarrow> Session \<Rightarrow> Session list" where
  "upsert xs s = (case replaceFirst xs s of (ys, found) \<Rightarrow> if found then ys else ys @ [s])"

definition SaveSession :: "Storage \<Rightarrow> Session \<Rightarrow> Storage \<times> error option" where
  "SaveSession st s =
     (case GetAllSessions st of
        Inl e \<Rightarrow> (st, Some e)
      | Inr xs \<Rightarrow> writeSessions st (upsert xs s))"

fun firstActive :: "Session list \<Rightarrow> Session option" where
  "firstActive [] = None"
| "firstActive (x # xs) = (if Active x \<and> \<not> Completed x then Some x else firstActive xs)"

definition GetActiveSession :: "Storage \<Rightarrow> error + Session option" where
  "GetActiveSession st =
     (case GetAllSessions st of Inl e \<Rightarrow> Inl e | Inr xs \<Rightarrow> Inr (firstActive xs))"

definition DeactivateAllSessions :: "Storage \<Rightarrow> Storage \<times> error option" where
  "DeactivateAllSessions st =
     (case GetAllSessions st of
        Inl e \<Rightarrow> (st, Some e)
      | Inr xs \<Rightarrow> writeSessions st (map (\<lambda>x. x\<lparr>Active := False\<rparr>) xs))"

definition SaveConfig :: "Storage \<Rightarrow> Config \<Rightarrow> Storage \<times> error option" where
  "SaveConfig st c =
     (if writable st then (st\<lparr>configFile := Stored c\<rparr>, None) else (st, Some WriteError))"

text \<open>\<open>GetConfig\<close> returns the store after the call, the config and the error.\<close>

definition emptyConfig :: Config where
  "emptyConfig = \<lparr>SessionDuration = 0, DailySessionGoal = 0,
     WorkStartHour = 0, WorkEndHour = 0\<rparr>"

definition GetConfig :: "Storage \<Rightarrow> Storage \<times> Config \<times> error option" where
  "GetConfig st =
     (case configFile st of
        Missing \<Rightarrow> (case SaveConfig st DefaultConfig of (st', err) \<Rightarrow> (st', DefaultConfig, err))
      | Unreadable \<Rightarrow> (st, emptyConfig, Some ReadError)
      | Malformed \<Rightarrow> (st, emptyConfig, Some UnmarshalError)
      | Stored c \<Rightarrow> (st, c, None))"

section \<open>Statistics (package storage)\<close>



definition GetSessionsByDate :: "Storage \<Rightarrow> string \<Rightarrow> error + Session list" where
  "GetSessionsByDate st date =
     (case GetAllSessions st of
        Inl e \<Rightarrow> Inl e
      | Inr allSessions \<Rightarrow> Inr (filter (\<lambda>session. Date session = date) allSessions))"

definition GetWeekSessions :: "Storage \<Rightarrow> int \<Rightarrow> int \<Rightarrow> error + Session list" where
  "GetWeekSessions st year week =
     (case GetAllSessions st of
        Inl e \<Rightarrow> Inl e
      | Inr allSessions \<Rightarrow>
          Inr (filter (\<lambda>session. Year session = year \<and> Week session = week) allSessions))"



text \<open>
  The loops of the statistics functions. Each of them repeats the same three statements
  that compute \<open>actualMinutes\<close>, and the model repeats them as the source does.
  \<open>completedCount\<close> is bounded by the length of a slice, so its increment cannot wrap;
  \<open>totalMinutes += actualMinutes\<close> wraps.
\<close>

fun dayLoop :: "Session list \<Rightarrow> int \<Rightarrow> int \<Rightarrow> int \<times> int" where
  "dayLoop [] completedCount totalMinutes = (completedCount, totalMinutes)"
| "dayLoop (session # rest) completedCount totalMinutes =
     (if Completed session then
        (let a0 = go_div (ElapsedSeconds session) 60;
             a1 = (if a0 = 0 \<and> \<not> IsZero (EndTime session) \<and> \<not> IsZero (StartTime session)
                   then Minutes (Sub (EndTime session) (StartTime session)) else a0);
             a2 = (if a1 = 0 then Duration session else a1)
         in dayLoop rest (completedCount + 1) (int64 (totalMinutes + a2)))
      else dayLoop rest completedCount totalMinutes)"

definition GetDayStats :: "Storage \<Rightarrow> string \<Rightarrow> error + DayStats" where
  "GetDayStats st date =
     (case GetSessionsByDate st date of
        Inl e \<Rightarrow> Inl e
      | Inr sessions \<Rightarrow>
          (case dayLoop sessions 0 0 of
             (completedCount, totalMinutes) \<Rightarrow>
               Inr \<lparr>ds_Date = date, ds_SessionsCount = completedCount,
                    ds_TotalMinutes = totalMinutes, ds_Sessions = sessions\<rparr>))"

text \<open>
  A Go map from keys to slices, as an association list in the order in which the keys
  were first inserted. \<open>m[k] = append(m[k], v)\<close> is \<open>mapAppend\<close>. Ranging over a Go map
  visits the keys in an unspecified order; the model visits them in insertion order, and
  the properties proved of the nested statistics are stated of every element of the
  result, so they do not depend on that order.
\<close>

fun mapAppend :: "('k \<times> 'v list) list \<Rightarrow> 'k \<Rightarrow> 'v \<Rightarrow> ('k \<times> 'v list) list" where
  "mapAppend [] k v = [(k, [v])]"
| "mapAppend ((k', vs) # m) k v =
     (if k' = k then (k', vs @ [v]) # m else (k', vs) # mapAppend m k v)"

fun weekLoop :: "Session list \<Rightarrow> int \<Rightarrow> int \<Rightarrow> (string \<times> Session list) list \<Rightarrow>
    int \<times> int \<times> (string \<times> Session list) list" where
  "weekLoop [] completedCount totalMinutes dateMap = (completedCount, totalMinutes, dateMap)"
| "weekLoop (session # rest) completedCount totalMinutes dateMap =
     (if Completed session then
        (let a0 = go_div (ElapsedSeconds session) 60;
             a1 = (if a0 = 0 \<and> \<not> IsZero (EndTime session) \<and> \<not> IsZero (StartTime session)
                   then Minutes (Sub (EndTime session) (StartTime session)) else a0);
             a2 = (if a1 = 0 then Duration session else a1)
         in weekLoop rest (completedCount + 1) (int64 (totalMinutes + a2))
              (mapAppend dateMap (Date session) session))
      else weekLoop rest completedCount totalMinutes dateMap)"

text \<open>The inner loop of the nested statistics: \<open>TotalMinutes += actualMinutes\<close>.\<close>

fun subTotal :: "Session list \<Rightarrow> int \<Rightarrow> int" where
  "subTotal [] totalMinutes = totalMinutes"
| "subTotal (s # rest) totalMinutes =
     (let a0 = go_div (ElapsedSeconds s) 60;
          a1 = (if a0 = 0 \<and> \<not> IsZero (EndTime s) \<and> \<not> IsZero (StartTime s)
                then Minutes (Sub (EndTime s) (StartTime s)) else a0);
          a2 = (if a1 = 0 then Duration s else a1)
      in subTotal rest (int64 (totalMinutes + a2)))"

definition dayOfWeek :: "string \<times> Session list \<Rightarrow> DayStats" where
  "dayOfWeek e = (case e of (date, dateSessions) \<Rightarrow>
     \<lparr>ds_Date = date, ds_SessionsCount = int (length dateSessions),
      ds_TotalMinutes = subTotal dateSessions 0, ds_Sessions = dateSessions\<rparr>)"

definition GetWeekStats :: "Storage \<Rightarrow> int \<Rightarrow> int \<Rightarrow> error + WeekStats" where
  "GetWeekStats st year week =
     (case GetWeekSessions st year week of
        Inl e \<Rightarrow> Inl e
      | Inr sessions \<Rightarrow>
          (case weekLoop sessions 0 0 [] of
             (completedCount, totalMinutes, dateMap) \<Rightarrow>
               Inr \<lparr>ws_Week = week, ws_Year = year, ws_SessionsCount = completedCount,
                    ws_TotalMinutes = totalMinutes,
                    ws_DailyStats = map dayOfWeek dateMap\<rparr>))"








definition actualMinutes :: "Session \<Rightarrow> int" where
  "actualMinutes s =
     (if go_div (ElapsedSeconds s) 60 \<noteq> 0 then go_div (ElapsedSeconds s) 60
      else if \<not> IsZero (EndTime s) \<and> \<not> IsZero (StartTime s)
              \<and> Minutes (Sub (EndTime s) (StartTime s)) \<noteq> 0
           then Minutes (Sub (EndTime s) (StartTime s))
      else Duration s)"

text \<open>The sum a rollup forms of the actual minutes of a list of sessions, in 64 bits.\<close>

definition minutesSum :: "Session list \<Rightarrow> int" where
  "minutesSum xs = foldl (\<lambda>t s. int64 (t + actualMinutes s)) 0 xs"

text \<open>
  The grouping that the week, month and year loops perform on the completed sessions.
\<close>

fun groupLoop :: "('a \<Rightarrow> 'k) \<Rightarrow> 'a list \<Rightarrow> ('k \<times> 'a list) list \<Rightarrow> ('k \<times> 'a list) list" where
  "groupLoop key [] m = m"
| "groupLoop key (x # xs) m = groupLoop key xs (mapAppend m (key x) x)"

section \<open>The dashboard (package dashboard)\<close>

text \<open>
  The dashboard model keeps the fields that take part in the session life cycle and in
  the dispatch of the keys. The cached statistics, the window size, the progress bar and
  the export message are written by \<open>Update\<close> but never read back by the code that
  changes a session or the store, and are left out. \<open>activeSession\<close> is a pointer that
  only the model holds, so the record it points to is a field of the model.

  Every event reads the clock and may draw a UUID; the readings are the \<open>Clock\<close> of the
  event. \<open>startNewSession\<close> calls \<open>time.Now()\<close> once for each of the start time and the
  four bucket keys, so they are separate readings.
\<close>

record Clock =
  c_uuid :: string
  c_now :: gotime
  c_date :: string
  c_week :: int
  c_month :: string
  c_year :: int

datatype ViewState = HomeView | StatsView | StatsDetailDaily | StatsDetailWeekly
  | StatsDetailMonthly | StatsDetailYearly | HelpView

datatype Key = KQuit | KHome | KBack | KHelp | KStats | KDaily | KWeekly | KMonthly | KYearly
  | KStart | KPause | KResume | KCancel | KSettings | KExport | KOther

text \<open>
  \<open>OtherMsg\<close> stands for the window size, progress frame and export messages, which
  change none of the modelled fields; the commands they return are not modelled.
\<close>

datatype Msg = KeyMsg Key | TickMsg | OtherMsg

datatype Cmd = CmdNone | CmdTick | CmdQuit | CmdOther

record Dashboard =
  config :: Config
  activeSession :: "Session option"
  viewState :: ViewState
  timerRunning :: bool
  timerPaused :: bool
  timerElapsed :: int
  timerDuration :: int
  helpQuit :: bool
  shouldQuit :: bool
  openSettings :: bool

definition New :: "gotime \<Rightarrow> Storage \<Rightarrow> Storage \<times> (error + Dashboard)" where
  "New now st =
     (case GetConfig st of
        (st', cfg, Some e) \<Rightarrow> (st', Inl e)
      | (st', cfg, None) \<Rightarrow>
          (let activeSession = (case GetActiveSession st' of Inl e \<Rightarrow> None | Inr a \<Rightarrow> a);
               m = \<lparr>config = cfg, activeSession = activeSession, viewState = HomeView,
                    timerRunning = False, timerPaused = False, timerElapsed = 0,
                    timerDuration = int64 (SessionDuration cfg * 60), helpQuit = False,
                    shouldQuit = False, openSettings = False\<rparr>
           in (st', Inr
             (case activeSession of
                None \<Rightarrow> m
              | Some a \<Rightarrow>
                  (let m1 = m\<lparr>timerRunning := True, timerPaused := Paused a,
                               timerDuration := int64 (Duration a * 60)\<rparr>
                   in if \<not> Paused a then
                        (let m2 = m1\<lparr>timerElapsed := Seconds (Sub now (StartTime a))\<rparr>
                         in if timerElapsed m2 > timerDuration m2
                            then m2\<lparr>timerElapsed := timerDuration m2\<rparr> else m2)
                      else m1\<lparr>timerElapsed := ElapsedSeconds a\<rparr>)))))"

definition startNewSession :: "Clock \<Rightarrow> Dashboard \<times> Storage \<Rightarrow> (Dashboard \<times> Storage) \<times> Cmd" where
  "startNewSession clk ms = (case ms of (m, st) \<Rightarrow>
     (let st1 = fst (DeactivateAllSessions st);
          session = \<lparr>ID = c_uuid clk, StartTime = c_now clk, EndTime = 0,
                     Duration = SessionDuration (config m), Completed = False,
                     Date = c_date clk, Week = c_week clk, Month = c_month clk,
                     Year = c_year clk, Active = True, ElapsedSeconds = 0, Paused = False\<rparr>;
          st2 = fst (SaveSession st1 session)
      in ((m\<lparr>activeSession := Some session, timerRunning := True, timerPaused := False,
             timerElapsed := 0, timerDuration := int64 (SessionDuration (config m) * 60)\<rparr>,
           st2), CmdTick)))"

definition cancelSession :: "Clock \<Rightarrow> Dashboard \<times> Storage \<Rightarrow> (Dashboard \<times> Storage) \<times> Cmd" where
  "cancelSession clk ms = (case ms of (m, st) \<Rightarrow>
     (let st1 = (case activeSession m of
                   None \<Rightarrow> st
                 | Some a \<Rightarrow> fst (SaveSession st
                     (a\<lparr>EndTime := c_now clk, Completed := False, Active := False,
                        ElapsedSeconds := timerElapsed m\<rparr>)))
      in ((m\<lparr>activeSession := None, timerRunning := False, timerPaused := False,
             timerElapsed := 0\<rparr>, st1), CmdNone)))"

definition completeSession :: "Clock \<Rightarrow> Dashboard \<times> Storage \<Rightarrow> (Dashboard \<times> Storage) \<times> Cmd" where
  "completeSession clk ms = (case ms of (m, st) \<Rightarrow>
     (let st1 = (case activeSession m of
                   None \<Rightarrow> st
                 | Some a \<Rightarrow> fst (SaveSession st
                     (a\<lparr>EndTime := c_now clk, Completed := True, Active := False,
                        ElapsedSeconds := timerElapsed m\<rparr>)))
      in ((m\<lparr>activeSession := None, timerRunning := False, timerPaused := False,
             timerElapsed := 0\<rparr>, st1), CmdOther)))"

text \<open>
  The keys of a help view: Back, Quit and Home set the help model's \<open>quit\<close> flag, which
  is never reset; the dashboard then returns to the home view.
\<close>

definition helpUpdate :: "Key \<Rightarrow> bool \<Rightarrow> bool" where
  "helpUpdate k q = (if k = KBack \<or> k = KQuit \<or> k = KHome then True else q)"

fun keyUpdate :: "Clock \<Rightarrow> Key \<Rightarrow> Dashboard \<times> Storage \<Rightarrow> (Dashboard \<times> Storage) \<times> Cmd" where
  "keyUpdate clk KQuit (m, st) =
     (case (if timerRunning m then activeSession m else None) of
        Some a \<Rightarrow>
          (let a' = a\<lparr>ElapsedSeconds := timerElapsed m, Paused := timerPaused m\<rparr>
           in ((m\<lparr>activeSession := Some a', shouldQuit := True\<rparr>, fst (SaveSession st a')),
               CmdQuit))
      | None \<Rightarrow> ((m\<lparr>shouldQuit := True\<rparr>, st), CmdQuit))"
| "keyUpdate clk KHome (m, st) = ((m\<lparr>viewState := HomeView\<rparr>, st), CmdNone)"
| "keyUpdate clk KBack (m, st) =
     (((case viewState m of
         StatsView \<Rightarrow> m\<lparr>viewState := HomeView\<rparr>
       | HelpView \<Rightarrow> m\<lparr>viewState := HomeView\<rparr>
       | HomeView \<Rightarrow> m
       | _ \<Rightarrow> m\<lparr>viewState := StatsView\<rparr>), st), CmdNone)"
| "keyUpdate clk KHelp (m, st) = ((m\<lparr>viewState := HelpView\<rparr>, st), CmdNone)"
| "keyUpdate clk KStats (m, st) =
     ((if viewState m = StatsView then m\<lparr>viewState := HomeView\<rparr>
       else m\<lparr>viewState := StatsView\<rparr>, st), CmdNone)"
| "keyUpdate clk KDaily (m, st) =
     ((if viewState m = StatsView then m\<lparr>viewState := StatsDetailDaily\<rparr> else m, st), CmdNone)"
| "keyUpdate clk KWeekly (m, st) =
     ((if viewState m = StatsView then m\<lparr>viewState := StatsDetailWeekly\<rparr> else m, st), CmdNone)"
| "keyUpdate clk KMonthly (m, st) =
     ((if viewState m = StatsView then m\<lparr>viewState := StatsDetailMonthly\<rparr> else m, st), CmdNone)"
| "keyUpdate clk KYearly (m, st) =
     ((if viewState m = StatsView then m\<lparr>viewState := StatsDetailYearly\<rparr> else m, st), CmdNone)"
| "keyUpdate clk KStart (m, st) =
     (if \<not> timerRunning m then startNewSession clk (m, st) else ((m, st), CmdNone))"
| "keyUpdate clk KPause (m, st) =
     (if timerRunning m \<and> \<not> timerPaused m then
        (case activeSession m of
           Some a \<Rightarrow>
             (let a' = a\<lparr>Paused := True, ElapsedSeconds := timerElapsed m\<rparr>
              in ((m\<lparr>timerPaused := True, activeSession := Some a'\<rparr>,
                   fst (SaveSession st a')), CmdNone))
         | None \<Rightarrow> ((m\<lparr>timerPaused := True\<rparr>, st), CmdNone))
      else ((m, st), CmdNone))"
| "keyUpdate clk KResume (m, st) =
     (if timerRunning m \<and> timerPaused m then
        (case activeSession m of
           Some a \<Rightarrow>
             (let a' = a\<lparr>Paused := False\<rparr>
              in ((m\<lparr>timerPaused := False, activeSession := Some a'\<rparr>,
                   fst (SaveSession st a')), CmdTick))
         | None \<Rightarrow> ((m\<lparr>timerPaused := False\<rparr>, st), CmdTick))
      else ((m, st), CmdNone))"
| "keyUpdate clk KCancel (m, st) =
     (if timerRunning m then cancelSession clk (m, st) else ((m, st), CmdNone))"
| "keyUpdate clk KSettings (m, st) = ((m\<lparr>openSettings := True\<rparr>, st), CmdQuit)"
| "keyUpdate clk KExport (m, st) =
     ((m, st), if viewState m = HomeView \<or> viewState m = HelpView then CmdNone else CmdOther)"
| "keyUpdate clk KOther (m, st) = ((m, st), CmdNone)"

definition tickUpdate :: "Clock \<Rightarrow> Dashboard \<times> Storage \<Rightarrow> (Dashboard \<times> Storage) \<times> Cmd" where
  "tickUpdate clk ms = (case ms of (m, st) \<Rightarrow>
     (if timerRunning m \<and> \<not> timerPaused m then
        (let m1 = m\<lparr>timerElapsed := int64 (timerElapsed m + 1)\<rparr>;
             (m2, st2) =
               (case (if go_mod (timerElapsed m1) 10 = 0 then activeSession m1 else None) of
                  Some a \<Rightarrow>
                    (let a' = a\<lparr>ElapsedSeconds := timerElapsed m1\<rparr>
                     in (m1\<lparr>activeSession := Some a'\<rparr>, fst (SaveSession st a')))
                | None \<Rightarrow> (m1, st))
         in if timerElapsed m2 \<ge> timerDuration m2 then completeSession clk (m2, st2)
            else ((m2, st2), CmdTick))
      else ((m, st), CmdNone)))"

definition Update :: "Clock \<Rightarrow> Msg \<Rightarrow> Dashboard \<times> Storage \<Rightarrow> (Dashboard \<times> Storage) \<times> Cmd" where
  "Update clk msg ms =
     (case msg of
        KeyMsg k \<Rightarrow>
          (if viewState (fst ms) = HelpView then
             (let q = helpUpdate k (helpQuit (fst ms));
                  m1 = (fst ms)\<lparr>helpQuit := q\<rparr>
              in ((if q then m1\<lparr>viewState := HomeView\<rparr> else m1, snd ms), CmdNone))
           else keyUpdate clk k ms)
      | TickMsg \<Rightarrow> tickUpdate clk ms
      | OtherMsg \<Rightarrow> (ms, CmdNone))"

text \<open>\<open>n\<close> ticks in a row, all at the clock \<open>clk\<close>.\<close>

fun ticks :: "nat \<Rightarrow> Clock \<Rightarrow> Dashboard \<times> Storage \<Rightarrow> Dashboard \<times> Storage" where
  "ticks 0 clk ms = ms"
| "ticks (Suc n) clk ms = ticks n clk (fst (Update clk TickMsg ms))"

text \<open>
  The start, cancel and complete operations of the state machine, run in a sequence,
  each at its own clock.
\<close>

datatype Op = OpStart | OpCancel | OpComplete

definition runOp :: "Clock \<times> Op \<Rightarrow> Dashboard \<times> Storage \<Rightarrow> Dashboard \<times> Storage" where
  "runOp co ms = (case snd co of
      OpStart \<Rightarrow> fst (startNewSession (fst co) ms)
    | OpCancel \<Rightarrow> fst (cancelSession (fst co) ms)
    | OpComplete \<Rightarrow> fst (completeSession (fst co) ms))"

fun runOps :: "(Clock \<times> Op) list \<Rightarrow> Dashboard \<times> Storage \<Rightarrow> Dashboard \<times> Storage" where
  "runOps [] ms = ms"
| "runOps (co # rest) ms = runOps rest (runOp co ms)"

definition persisted :: "Storage \<Rightarrow> Session list" where
  "persisted st = (case sessionsFile st of Stored xs \<Rightarrow> xs | _ \<Rightarrow> [])"

definition activeCount :: "Session list \<Rightarrow> nat" where
  "activeCount xs = length (filter Active xs)"

section \<open>The timer (package timer)\<close>

text \<open>
  The stand-alone timer view. \<open>duration\<close> and \<open>elapsed\<close> are in seconds; the progress
  bar and the window size are left out.
\<close>

datatype TKey = TStart | TPause | TResume | TCancel | TQuit | TBack | TMenu | THome | TOther

datatype TMsg = TKeyMsg TKey | TTickMsg | TOtherMsg

record Timer =
  duration :: int
  elapsed :: int
  running :: bool
  paused :: bool
  finished :: bool
  cancelled :: bool
  exitToMenu :: bool
  currentSession :: "Session option"
  isResuming :: bool

definition timerNew :: "int \<Rightarrow> Timer" where
  "timerNew d = \<lparr>duration = int64 (d * 60), elapsed = 0, running = False, paused = False,
     finished = False, cancelled = False, exitToMenu = False, currentSession = None,
     isResuming = False\<rparr>"


text \<open>
  \<open>saveCurrent f\<close> is the recurring block
  \<open>if m.currentSession != nil { ...assignments f...; m.storage.SaveSession(*m.currentSession) }\<close>.
\<close>

definition saveCurrent :: "(Session \<Rightarrow> Session) \<Rightarrow> Timer \<times> Storage \<Rightarrow> Timer \<times> Storage" where
  "saveCurrent f ms = (case ms of (m, st) \<Rightarrow>
     (case currentSession m of
        None \<Rightarrow> (m, st)
      | Some a \<Rightarrow> (m\<lparr>currentSession := Some (f a)\<rparr>, fst (SaveSession st (f a)))))"

definition timerKey :: "Clock \<Rightarrow> TKey \<Rightarrow> Timer \<times> Storage \<Rightarrow> (Timer \<times> Storage) \<times> Cmd" where
  "timerKey clk k ms = (case ms of (m, st) \<Rightarrow>
     (if k = TStart \<and> \<not> running m \<and> \<not> finished m then
        (let st1 = fst (DeactivateAllSessions st);
             session = \<lparr>ID = c_uuid clk, StartTime = c_now clk, EndTime = 0,
                        Duration = go_div (duration m) 60, Completed = False,
                        Date = c_date clk, Week = c_week clk, Month = c_month clk,
                        Year = c_year clk, Active = True, ElapsedSeconds = 0, Paused = False\<rparr>
         in ((m\<lparr>running := True, paused := False, currentSession := Some session\<rparr>,
              fst (SaveSession st1 session)), CmdTick))
      else if k = TPause \<and> running m \<and> \<not> paused m then
        (saveCurrent (\<lambda>a. a\<lparr>Paused := True, ElapsedSeconds := elapsed m\<rparr>)
           (m\<lparr>paused := True\<rparr>, st), CmdNone)
      else if k = TResume \<and> running m \<and> paused m then
        (saveCurrent (\<lambda>a. a\<lparr>Paused := False\<rparr>) (m\<lparr>paused := False\<rparr>, st), CmdTick)
      else if k = TCancel \<and> running m then
        (saveCurrent (\<lambda>a. a\<lparr>EndTime := c_now clk, Completed := False, Active := False\<rparr>)
           (m\<lparr>running := False, cancelled := True, finished := True\<rparr>, st), CmdQuit)
      else if k = TMenu \<and> running m \<and> \<not> finished m then
        (saveCurrent (\<lambda>a. a\<lparr>ElapsedSeconds := elapsed m, Paused := paused m\<rparr>)
           (m\<lparr>exitToMenu := True\<rparr>, st), CmdQuit)
      else if k = THome then
        (if running m \<and> \<not> finished m
         then saveCurrent (\<lambda>a. a\<lparr>ElapsedSeconds := elapsed m, Paused := True\<rparr>)
                (m\<lparr>exitToMenu := True\<rparr>, st)
         else (m\<lparr>exitToMenu := True\<rparr>, st), CmdQuit)
      else if k = TQuit then
        (if running m \<and> \<not> finished m
         then saveCurrent (\<lambda>a. a\<lparr>ElapsedSeconds := elapsed m, Paused := True\<rparr>) (m, st)
         else (m, st), CmdQuit)
      else if k = TBack \<and> finished m then ((m, st), CmdQuit)
      else ((m, st), CmdNone)))"

definition timerTick :: "Clock \<Rightarrow> Timer \<times> Storage \<Rightarrow> (Timer \<times> Storage) \<times> Cmd" where
  "timerTick clk ms = (case ms of (m, st) \<Rightarrow>
     (if running m \<and> \<not> paused m \<and> \<not> finished m then
        (let m1 = m\<lparr>elapsed := int64 (elapsed m + 1)\<rparr>;
             ms2 = (if go_mod (elapsed m1) 10 = 0
                    then saveCurrent (\<lambda>a. a\<lparr>ElapsedSeconds := elapsed m1\<rparr>) (m1, st)
                    else (m1, st))
         in if elapsed (fst ms2) \<ge> duration (fst ms2) then
              (saveCurrent (\<lambda>a. a\<lparr>EndTime := c_now clk, Completed := True, Active := False\<rparr>)
                 ((fst ms2)\<lparr>finished := True, running := False\<rparr>, snd ms2), CmdQuit)
            else (ms2, CmdTick))
      else ((m, st), CmdNone)))"

definition timerUpdate :: "Clock \<Rightarrow> TMsg \<Rightarrow> Timer \<times> Storage \<Rightarrow> (Timer \<times> Storage) \<times> Cmd" where
  "timerUpdate clk msg ms =
     (case msg of
        TKeyMsg k \<Rightarrow> timerKey clk k ms
      | TTickMsg \<Rightarrow> timerTick clk ms
      | TOtherMsg \<Rightarrow> (ms, CmdNone))"

fun timerTicks :: "nat \<Rightarrow> Clock \<Rightarrow> Timer \<times> Storage \<Rightarrow> Timer \<times> Storage" where
  "timerTicks 0 clk ms = ms"
| "timerTicks (Suc n) clk ms = timerTicks n clk (fst (timerUpdate clk TTickMsg ms))"

section \<open>Concrete stores and sessions for the examples\<close>

definition sess :: "string \<Rightarrow> bool \<Rightarrow> bool \<Rightarrow> int \<Rightarrow> Session" where
  "sess i a c e = \<lparr>ID = i, StartTime = 0, EndTime = 0, Duration = 25, Completed = c,
     Date = ''2024-03-04'', Week = 10, Month = ''2024-03'', Year = 2024, Active = a,
     ElapsedSeconds = e, Paused = False\<rparr>"

definition store_of :: "Session list \<Rightarrow> Storage" where
  "store_of xs = \<lparr>sessionsFile = Stored xs, configFile = Missing, writable = True\<rparr>"

definition wsess :: "string \<Rightarrow> string \<Rightarrow> int \<Rightarrow> bool \<Rightarrow> int \<Rightarrow> gotime \<Rightarrow> gotime \<Rightarrow> int \<Rightarrow> Session" where
  "wsess i d w c e t0 t1 p = \<lparr>ID = i, StartTime = t0, EndTime = t1, Duration = p, Completed = c,
     Date = d, Week = w, Month = ''2024-03'', Year = 2024, Active = False,
     ElapsedSeconds = e, Paused = False\<rparr>"




definition clk0 :: Clock where
  "clk0 = \<lparr>c_uuid = ''u1'', c_now = 1000000000000, c_date = ''2024-03-04'', c_week = 10,
     c_month = ''2024-03'', c_year = 2024\<rparr>"

definition clk1 :: Clock where
  "clk1 = \<lparr>c_uuid = ''u2'', c_now = 5000000000000, c_date = ''2024-03-04'', c_week = 10,
     c_month = ''2024-03'', c_year = 2024\<rparr>"

definition dash0 :: "int \<Rightarrow> Dashboard" where
  "dash0 d = \<lparr>config = \<lparr>SessionDuration = d, DailySessionGoal = 8, WorkStartHour = 8,
       WorkEndHour = 16\<rparr>,
     activeSession = None, viewState = HomeView, timerRunning = False, timerPaused = False,
     timerElapsed = 0, timerDuration = d * 60, helpQuit = False, shouldQuit = False,
     openSettings = False\<rparr>"

definition act30 :: Session where
  "act30 = \<lparr>ID = ''s'', StartTime = 1000000000000, EndTime = 0, Duration = 30,
     Completed = False, Date = ''2024-03-04'', Week = 10, Month = ''2024-03'', Year = 2024,
     Active = True, ElapsedSeconds = 900, Paused = False\<rparr>"

definition store30 :: Storage where
  "store30 = \<lparr>sessionsFile = Stored [act30], configFile = Stored DefaultConfig,
     writable = True\<rparr>"

definition dash45 :: Dashboard where
  "dash45 = \<lparr>config = DefaultConfig, activeSession = Some act30, viewState = HomeView,
     timerRunning = True, timerPaused = False, timerElapsed = 1800, timerDuration = 1800,
     helpQuit = False, shouldQuit = False, openSettings = False\<rparr>"

definition started1 :: Session where
  "started1 = \<lparr>ID = ''u1'', StartTime = 1000000000000, EndTime = 0, Duration = 1,
     Completed = False, Date = ''2024-03-04'', Week = 10, Month = ''2024-03'', Year = 2024,
     Active = True, ElapsedSeconds = 0, Paused = False\<rparr>"

definition timer59 :: Timer where
  "timer59 = \<lparr>duration = 60, elapsed = 59, running = True, paused = False, finished = False,
     cancelled = False, exitToMenu = False, currentSession = Some started1,
     isResuming = False\<rparr>"

definition dash59 :: Dashboard where
  "dash59 = \<lparr>config = DefaultConfig\<lparr>SessionDuration := 1\<rparr>, activeSession = Some started1,
     viewState = HomeView, timerRunning = True, timerPaused = False, timerElapsed = 59,
     timerDuration = 60, helpQuit = False, shouldQuit = False, openSettings = False\<rparr>"


section \<open>Session store: lookup and update\<close>

lemma replaceFirst_found:
  "snd (replaceFirst xs s) = (\<exists>x \<in> set xs. ID x = ID s)"
  by (induction xs) (auto split: prod.splits)

lemma replaceFirst_length: "length (fst (replaceFirst xs s)) = length xs"
  by (induction xs) (auto split: prod.splits)

lemma replaceFirst_absent:
  "\<forall>x \<in> set xs. ID x \<noteq> ID s \<Longrightarrow> replaceFirst xs s = (xs, False)"
  by (induction xs) auto

lemma replaceFirst_member:
  "y \<in> set xs \<Longrightarrow> ID y = ID s \<Longrightarrow>
   replaceFirst xs s = (xs[length (takeWhile (\<lambda>x. ID x \<noteq> ID s) xs) := s], True)"
  by (induction xs) auto

lemma replaceFirst_present:
  "\<exists>x \<in> set xs. ID x = ID s \<Longrightarrow>
   replaceFirst xs s = (xs[length (takeWhile (\<lambda>x. ID x \<noteq> ID s) xs) := s], True)"
  using replaceFirst_member by blast

lemma upsert_absent: "\<forall>x \<in> set xs. ID x \<noteq> ID s \<Longrightarrow> upsert xs s = xs @ [s]"
  by (simp add: upsert_def replaceFirst_absent)

lemma upsert_present:
  "\<exists>x \<in> set xs. ID x = ID s \<Longrightarrow>
   upsert xs s = xs[length (takeWhile (\<lambda>x. ID x \<noteq> ID s) xs) := s]"
  by (simp add: upsert_def replaceFirst_present)



lemma firstActive_None:
  "(firstActive xs = None) = (\<forall>x \<in> set xs. \<not> (Active x \<and> \<not> Completed x))"
  by (induction xs) auto

lemma firstActive_Some:
  "\<exists>x \<in> set xs. Active x \<and> \<not> Completed x \<Longrightarrow>
   firstActive xs = Some (xs ! length (takeWhile (\<lambda>x. \<not> (Active x \<and> \<not> Completed x)) xs))"
  by (induction xs) auto



text \<open>
  C10. On a readable store \<open>GetActiveSession\<close> does not fail. When some stored session
  is active and not completed, whether one or several, it returns the first of them in
  stored order; it returns none exactly when no stored session is active and not completed.
\<close>

theorem C10_get_active_first:
  assumes "GetAllSessions st = Inr xs"
  shows "((\<exists>x \<in> set xs. Active x \<and> \<not> Completed x) \<longrightarrow>
            GetActiveSession st =
              Inr (Some (xs ! length (takeWhile (\<lambda>x. \<not> (Active x \<and> \<not> Completed x)) xs))))
       \<and> ((GetActiveSession st = Inr None) = (\<forall>x \<in> set xs. \<not> (Active x \<and> \<not> Completed x)))"
  using assms firstActive_Some [of xs] firstActive_None [of xs]
  by (auto simp: GetActiveSession_def)

theorem C10_get_active_first_witness:
  "GetActiveSession (store_of [sess ''a'' True True 60, sess ''b'' True False 5,
       sess ''c'' True False 7])
   = Inr (Some (sess ''b'' True False 5))"
proof -
  have g: "GetAllSessions (store_of [sess ''a'' True True 60, sess ''b'' True False 5,
       sess ''c'' True False 7])
      = Inr [sess ''a'' True True 60, sess ''b'' True False 5, sess ''c'' True False 7]"
    by (simp add: GetAllSessions_def store_of_def)
  show ?thesis
    using C10_get_active_first [OF g] by (simp add: sess_def)
qed



section \<open>Statistics: what the rollups compute\<close>

lemma dayLoop_eq:
  "dayLoop ss c t = (c + int (length (filter Completed ss)),
     foldl (\<lambda>t s. int64 (t + actualMinutes s)) t (filter Completed ss))"
  by (induction ss arbitrary: c t) (simp_all add: Let_def actualMinutes_def)

lemma subTotal_eq:
  "subTotal ss t = foldl (\<lambda>t s. int64 (t + actualMinutes s)) t ss"
  by (induction ss arbitrary: t) (simp_all add: Let_def actualMinutes_def)

lemma weekLoop_eq:
  "weekLoop ss c t m = (c + int (length (filter Completed ss)),
     foldl (\<lambda>t s. int64 (t + actualMinutes s)) t (filter Completed ss),
     groupLoop Date (filter Completed ss) m)"
  by (induction ss arbitrary: c t m) (simp_all add: Let_def actualMinutes_def)




lemma mapAppend_keys:
  "map fst (mapAppend m k v) = (if k \<in> set (map fst m) then map fst m else map fst m @ [k])"
  by (induction m) (force+)

lemma mapAppend_distinct: "distinct (map fst m) \<Longrightarrow> distinct (map fst (mapAppend m k v))"
  by (simp add: mapAppend_keys)

lemma mapAppend_map_of:
  "map_of (mapAppend m k v) =
     (map_of m)(k \<mapsto> (case map_of m k of None \<Rightarrow> [v] | Some vs \<Rightarrow> vs @ [v]))"
  by (induction m) (auto simp: fun_eq_iff)

lemma groupLoop_distinct:
  "distinct (map fst m) \<Longrightarrow> distinct (map fst (groupLoop key xs m))"
  by (induction xs arbitrary: m) (auto simp: mapAppend_distinct)

lemma groupLoop_map_of:
  "map_of (groupLoop key xs m) k =
     (case map_of m k of
        None \<Rightarrow> (if filter (\<lambda>x. key x = k) xs = [] then None
                 else Some (filter (\<lambda>x. key x = k) xs))
      | Some vs \<Rightarrow> Some (vs @ filter (\<lambda>x. key x = k) xs))"
  by (induction xs arbitrary: m) (auto simp: mapAppend_map_of split: option.splits)

lemma groupLoop_entry:
  assumes "(k, v) \<in> set (groupLoop key xs [])"
  shows "v = filter (\<lambda>x. key x = k) xs \<and> v \<noteq> []"
proof -
  have "distinct (map fst (groupLoop key xs []))"
    by (rule groupLoop_distinct) simp
  with assms have "map_of (groupLoop key xs []) k = Some v" by simp
  then show ?thesis
    by (simp add: groupLoop_map_of split: if_splits)
qed


lemma GetDayStats_ok:
  "GetAllSessions st = Inr xs \<Longrightarrow>
   GetDayStats st date =
     Inr \<lparr>ds_Date = date,
          ds_SessionsCount = int (length (filter Completed (filter (\<lambda>s. Date s = date) xs))),
          ds_TotalMinutes = minutesSum (filter Completed (filter (\<lambda>s. Date s = date) xs)),
          ds_Sessions = filter (\<lambda>s. Date s = date) xs\<rparr>"
  by (simp add: GetDayStats_def GetSessionsByDate_def dayLoop_eq minutesSum_def)

lemma GetWeekStats_ok:
  "GetAllSessions st = Inr xs \<Longrightarrow>
   GetWeekStats st year week =
     Inr \<lparr>ws_Week = week, ws_Year = year,
          ws_SessionsCount = int (length (filter Completed
             (filter (\<lambda>s. Year s = year \<and> Week s = week) xs))),
          ws_TotalMinutes = minutesSum (filter Completed
             (filter (\<lambda>s. Year s = year \<and> Week s = week) xs)),
          ws_DailyStats = map dayOfWeek (groupLoop Date (filter Completed
             (filter (\<lambda>s. Year s = year \<and> Week s = week) xs)) [])\<rparr>"
  by (simp add: GetWeekStats_def GetWeekSessions_def weekLoop_eq minutesSum_def)




lemma daily_entry:
  assumes "d \<in> set (map dayOfWeek (groupLoop Date ws []))"
  shows "ds_Sessions d = filter (\<lambda>s. Date s = ds_Date d) ws \<and> ds_Sessions d \<noteq> []
       \<and> ds_SessionsCount d = int (length (ds_Sessions d))
       \<and> ds_TotalMinutes d = minutesSum (ds_Sessions d)"
proof -
  from assms obtain k v where kv: "(k, v) \<in> set (groupLoop Date ws [])" and d: "d = dayOfWeek (k, v)"
    by auto
  from groupLoop_entry [OF kv] d show ?thesis
    by (auto simp: dayOfWeek_def subTotal_eq minutesSum_def)
qed








text \<open>
  C8, as stated, fails: of two completed sessions of the same date, one stored with week
  10 and one with week 11, the day rollup inside the week statistics of week 10 counts one
  session and 30 minutes, and the day statistics of that date count two and 60.
\<close>

theorem C8_counterexample:
  "GetWeekStats (store_of [wsess ''a'' ''2024-03-10'' 10 True 1800 0 0 30,
                           wsess ''b'' ''2024-03-10'' 11 True 1800 0 0 30]) 2024 10
     = Inr \<lparr>ws_Week = 10, ws_Year = 2024, ws_SessionsCount = 1, ws_TotalMinutes = 30,
            ws_DailyStats = [\<lparr>ds_Date = ''2024-03-10'', ds_SessionsCount = 1,
               ds_TotalMinutes = 30,
               ds_Sessions = [wsess ''a'' ''2024-03-10'' 10 True 1800 0 0 30]\<rparr>]\<rparr>
   \<and> GetDayStats (store_of [wsess ''a'' ''2024-03-10'' 10 True 1800 0 0 30,
                           wsess ''b'' ''2024-03-10'' 11 True 1800 0 0 30]) ''2024-03-10''
     = Inr \<lparr>ds_Date = ''2024-03-10'', ds_SessionsCount = 2, ds_TotalMinutes = 60,
            ds_Sessions = [wsess ''a'' ''2024-03-10'' 10 True 1800 0 0 30,
                           wsess ''b'' ''2024-03-10'' 11 True 1800 0 0 30]\<rparr>"
  by (simp add: GetWeekStats_def GetWeekSessions_def GetDayStats_def GetSessionsByDate_def
      GetAllSessions_def store_of_def wsess_def dayOfWeek_def go_div_def int64_def Let_def)

text \<open>
  C8, amended. In a collection where the completed sessions of one date all carry the same
  year and week, every day rollup inside the week statistics has the count and the total
  minutes of the day statistics of its date over the same collection.
\<close>

theorem C8_week_days_match_day_stats:
  assumes rd: "GetAllSessions st = Inr xs"
    and keys: "\<forall>a \<in> set xs. \<forall>b \<in> set xs. Completed a \<and> Completed b \<and> Date a = Date b \<longrightarrow>
                 Year a = Year b \<and> Week a = Week b"
  shows "\<exists>w. GetWeekStats st year week = Inr w
           \<and> (\<forall>d \<in> set (ws_DailyStats w). \<exists>ds. GetDayStats st (ds_Date d) = Inr ds
                \<and> ds_SessionsCount ds = ds_SessionsCount d
                \<and> ds_TotalMinutes ds = ds_TotalMinutes d)"
proof -
  define wk where "wk = filter Completed (filter (\<lambda>s. Year s = year \<and> Week s = week) xs)"
  have day: "\<exists>ds. GetDayStats st (ds_Date d) = Inr ds
          \<and> ds_SessionsCount ds = ds_SessionsCount d \<and> ds_TotalMinutes ds = ds_TotalMinutes d"
    if d: "d \<in> set (map dayOfWeek (groupLoop Date wk []))" for d
  proof -
    define k where "k = ds_Date d"
    note e = daily_entry [OF d]
    from e have ss: "ds_Sessions d = filter (\<lambda>s. Date s = k) wk" by (simp add: k_def)
    from e have ne: "ds_Sessions d \<noteq> []" by blast
    from e have cnt: "ds_SessionsCount d = int (length (ds_Sessions d))" by blast
    from e have tot: "ds_TotalMinutes d = minutesSum (ds_Sessions d)" by blast
    from ne obtain s0 where "s0 \<in> set (ds_Sessions d)"
      by (cases "ds_Sessions d") auto
    with ss have s0: "s0 \<in> set xs" "Completed s0" "Year s0 = year"
        "Week s0 = week" "Date s0 = k"
      by (simp_all add: wk_def)
    have same: "Year s = year \<and> Week s = week"
      if "s \<in> set xs" "Completed s" "Date s = k" for s
      using keys that s0 by metis
    have "filter (\<lambda>s. (Year s = year \<and> Week s = week) \<and> Completed s \<and> Date s = k) xs
        = filter (\<lambda>s. Date s = k \<and> Completed s) xs"
      by (rule filter_cong [OF refl]) (use same in blast)
    then have "filter (\<lambda>s. Date s = k) wk = filter Completed (filter (\<lambda>s. Date s = k) xs)"
      by (simp add: wk_def)
    with ss have s2: "ds_Sessions d = filter Completed (filter (\<lambda>s. Date s = k) xs)"
      by simp
    have "GetDayStats st k = Inr \<lparr>ds_Date = k,
          ds_SessionsCount = int (length (ds_Sessions d)),
          ds_TotalMinutes = minutesSum (ds_Sessions d),
          ds_Sessions = filter (\<lambda>s. Date s = k) xs\<rparr>"
      unfolding s2 by (rule GetDayStats_ok [OF rd])
    with cnt tot show ?thesis
      by (simp add: k_def)
  qed
  have "GetWeekStats st year week = Inr \<lparr>ws_Week = week, ws_Year = year,
          ws_SessionsCount = int (length wk), ws_TotalMinutes = minutesSum wk,
          ws_DailyStats = map dayOfWeek (groupLoop Date wk [])\<rparr>"
    unfolding wk_def by (rule GetWeekStats_ok [OF rd])
  with day show ?thesis
    by simp
qed


theorem C8_week_days_match_day_stats_witness:
  "\<exists>w. GetWeekStats (store_of [wsess ''a'' ''2024-03-10'' 10 True 1800 0 0 30,
                               wsess ''b'' ''2024-03-09'' 10 True 125 0 0 30]) 2024 10 = Inr w
     \<and> (\<forall>d \<in> set (ws_DailyStats w). \<exists>ds.
          GetDayStats (store_of [wsess ''a'' ''2024-03-10'' 10 True 1800 0 0 30,
                               wsess ''b'' ''2024-03-09'' 10 True 125 0 0 30]) (ds_Date d) = Inr ds
          \<and> ds_SessionsCount ds = ds_SessionsCount d \<and> ds_TotalMinutes ds = ds_TotalMinutes d)"
proof -
  have g: "GetAllSessions (store_of [wsess ''a'' ''2024-03-10'' 10 True 1800 0 0 30,
                               wsess ''b'' ''2024-03-09'' 10 True 125 0 0 30])
      = Inr [wsess ''a'' ''2024-03-10'' 10 True 1800 0 0 30,
             wsess ''b'' ''2024-03-09'' 10 True 125 0 0 30]"
    by (simp add: GetAllSessions_def store_of_def)
  have k: "\<forall>a \<in> set [wsess ''a'' ''2024-03-10'' 10 True 1800 0 0 30,
                     wsess ''b'' ''2024-03-09'' 10 True 125 0 0 30].
           \<forall>b \<in> set [wsess ''a'' ''2024-03-10'' 10 True 1800 0 0 30,
                     wsess ''b'' ''2024-03-09'' 10 True 125 0 0 30].
             Completed a \<and> Completed b \<and> Date a = Date b \<longrightarrow> Year a = Year b \<and> Week a = Week b"
    by (simp add: wsess_def)
  show ?thesis
    using C8_week_days_match_day_stats [OF g k, of 2024 10] .
qed

section \<open>The state machine\<close>

lemma replaceFirst_unfound: "\<not> snd (replaceFirst xs s) \<Longrightarrow> fst (replaceFirst xs s) = xs"
  by (induction xs) (auto split: prod.splits)

lemma activeCount_replaceFirst:
  "activeCount (fst (replaceFirst xs s)) \<le> activeCount xs + (if Active s then 1 else 0)"
  by (induction xs) (auto simp: activeCount_def split: prod.splits)

lemma activeCount_upsert:
  "activeCount (upsert xs s) \<le> activeCount xs + (if Active s then 1 else 0)"
proof (cases "snd (replaceFirst xs s)")
  case True
  then have "upsert xs s = fst (replaceFirst xs s)"
    by (cases "replaceFirst xs s") (simp add: upsert_def)
  then show ?thesis
    using activeCount_replaceFirst [of xs s] by simp
next
  case False
  then have "upsert xs s = xs @ [s]"
    using replaceFirst_unfound [of xs s] by (cases "replaceFirst xs s") (simp add: upsert_def)
  then show ?thesis
    by (simp add: activeCount_def)
qed

lemma activeCount_deactivated: "activeCount (map (\<lambda>x. x\<lparr>Active := False\<rparr>) xs) = 0"
  by (induction xs) (auto simp: activeCount_def)

lemma persisted_SaveSession:
  "persisted (fst (SaveSession st s)) = persisted st
   \<or> persisted (fst (SaveSession st s)) = upsert (persisted st) s"
  by (auto simp: SaveSession_def GetAllSessions_def writeSessions_def persisted_def
      split: diskfile.splits)

lemma SaveSession_inactive:
  "\<not> Active s \<Longrightarrow> activeCount (persisted (fst (SaveSession st s))) \<le> activeCount (persisted st)"
  using persisted_SaveSession [of st s] activeCount_upsert [of "persisted st" s]
  by auto

lemma persisted_start:
  "persisted (fst (SaveSession (fst (DeactivateAllSessions st)) s)) = persisted st
   \<or> persisted (fst (SaveSession (fst (DeactivateAllSessions st)) s))
      = upsert (map (\<lambda>x. x\<lparr>Active := False\<rparr>) (persisted st)) s"
  by (auto simp: SaveSession_def DeactivateAllSessions_def GetAllSessions_def writeSessions_def
      persisted_def split: diskfile.splits)

lemma start_count:
  "activeCount (persisted st) \<le> 1 \<Longrightarrow>
   activeCount (persisted (fst (SaveSession (fst (DeactivateAllSessions st)) s))) \<le> 1"
  using persisted_start [of st s]
    activeCount_upsert [of "map (\<lambda>x. x\<lparr>Active := False\<rparr>) (persisted st)" s]
  by (auto simp: activeCount_deactivated split: if_splits)

lemma runOp_count:
  "activeCount (persisted (snd ms)) \<le> 1 \<Longrightarrow> activeCount (persisted (snd (runOp co ms))) \<le> 1"
proof (cases "snd co")
  case OpStart
  assume "activeCount (persisted (snd ms)) \<le> 1"
  then show ?thesis
    using OpStart start_count [of "snd ms"]
    by (cases ms) (simp add: runOp_def startNewSession_def Let_def)
next
  case OpCancel
  assume a: "activeCount (persisted (snd ms)) \<le> 1"
  show ?thesis
  proof (cases "activeSession (fst ms)")
    case None
    with a OpCancel show ?thesis
      by (cases ms) (simp add: runOp_def cancelSession_def)
  next
    case (Some s)
    with a OpCancel show ?thesis
      using SaveSession_inactive [of "s\<lparr>EndTime := c_now (fst co), Completed := False,
        Active := False, ElapsedSeconds := timerElapsed (fst ms)\<rparr>" "snd ms"]
      by (cases ms) (simp add: runOp_def cancelSession_def)
  qed
next
  case OpComplete
  assume a: "activeCount (persisted (snd ms)) \<le> 1"
  show ?thesis
  proof (cases "activeSession (fst ms)")
    case None
    with a OpComplete show ?thesis
      by (cases ms) (simp add: runOp_def completeSession_def)
  next
    case (Some s)
    with a OpComplete show ?thesis
      using SaveSession_inactive [of "s\<lparr>EndTime := c_now (fst co), Completed := True,
        Active := False, ElapsedSeconds := timerElapsed (fst ms)\<rparr>" "snd ms"]
      by (cases ms) (simp add: runOp_def completeSession_def)
  qed
qed

lemma runOps_count:
  "activeCount (persisted (snd ms)) \<le> 1 \<Longrightarrow> activeCount (persisted (snd (runOps ops ms))) \<le> 1"
proof (induction ops arbitrary: ms)
  case Nil
  then show ?case by simp
next
  case (Cons co ops)
  from Cons.prems have "activeCount (persisted (snd (runOp co ms))) \<le> 1"
    by (rule runOp_count)
  then have "activeCount (persisted (snd (runOps ops (runOp co ms)))) \<le> 1"
    by (rule Cons.IH)
  then show ?case by simp
qed

lemma replaceFirst_inactive_count:
  "\<forall>x \<in> set xs. \<not> Active x \<Longrightarrow> Active s \<Longrightarrow>
   activeCount (fst (replaceFirst xs s)) = (if snd (replaceFirst xs s) then 1 else 0)"
  by (induction xs) (auto simp: activeCount_def split: prod.splits)

lemma upsert_inactive_count:
  assumes "\<forall>x \<in> set xs. \<not> Active x" "Active s"
  shows "activeCount (upsert xs s) = 1"
proof (cases "replaceFirst xs s")
  case (Pair ys found)
  with replaceFirst_inactive_count [OF assms] show ?thesis
    using assms(2) by (auto simp: upsert_def activeCount_def)
qed

lemma start_exactly_one:
  assumes "GetAllSessions st = Inr xs" "writable st"
  shows "activeCount (persisted (snd (fst (startNewSession clk (m, st))))) = 1"
proof -
  have "persisted (snd (fst (startNewSession clk (m, st)))) =
      upsert (map (\<lambda>x. x\<lparr>Active := False\<rparr>) xs)
        \<lparr>ID = c_uuid clk, StartTime = c_now clk, EndTime = 0,
         Duration = SessionDuration (config m), Completed = False,
         Date = c_date clk, Week = c_week clk, Month = c_month clk,
         Year = c_year clk, Active = True, ElapsedSeconds = 0, Paused = False\<rparr>"
    using assms
    by (simp add: startNewSession_def DeactivateAllSessions_def SaveSession_def
        writeSessions_def GetAllSessions_def persisted_def Let_def)
  then show ?thesis
    by (simp add: upsert_inactive_count)
qed

text \<open>
  C2. Start (deactivate every stored session, then save the new session as active), cancel
  and complete, run in any sequence from a store with at most one active session, leave at
  most one active session in the persisted collection after each operation. A start on a
  readable and writable store leaves exactly one, whatever the store held before.
\<close>

theorem C2_at_most_one_active:
  "(activeCount (persisted st) \<le> 1 \<longrightarrow>
      (\<forall>n \<le> length ops. activeCount (persisted (snd (runOps (take n ops) (m, st)))) \<le> 1))
   \<and> (GetAllSessions st = Inr xs \<and> writable st \<longrightarrow>
      activeCount (persisted (snd (fst (startNewSession clk (m, st))))) = 1)"
proof -
  have "\<forall>n \<le> length ops. activeCount (persisted (snd (runOps (take n ops) (m, st)))) \<le> 1"
    if "activeCount (persisted st) \<le> 1"
    using that runOps_count [of "(m, st)"] by simp
  then show ?thesis
    using start_exactly_one [of st xs clk m] by blast
qed

theorem C2_at_most_one_active_witness:
  "activeCount (persisted (snd (runOps [(clk0, OpStart), (clk0, OpCancel), (clk1, OpStart)]
      (dash0 25, store_of [sess ''a'' True False 0])))) \<le> 1
   \<and> activeCount (persisted (snd (fst (startNewSession clk0
      (dash0 25, store_of [sess ''a'' True False 0, sess ''b'' True False 0]))))) = 1"
proof -
  have h: "activeCount (persisted (store_of [sess ''a'' True False 0])) \<le> 1"
    by (simp add: activeCount_def persisted_def store_of_def sess_def)
  have l: "3 \<le> length [(clk0, OpStart), (clk0, OpCancel), (clk1, OpStart)]"
    by simp
  have g: "GetAllSessions (store_of [sess ''a'' True False 0, sess ''b'' True False 0])
      = Inr [sess ''a'' True False 0, sess ''b'' True False 0]
    \<and> writable (store_of [sess ''a'' True False 0, sess ''b'' True False 0])"
    by (simp add: GetAllSessions_def store_of_def)
  from C2_at_most_one_active [where st = "store_of [sess ''a'' True False 0]"
      and ops = "[(clk0, OpStart), (clk0, OpCancel), (clk1, OpStart)]" and m = "dash0 25"] h l
  have a: "activeCount (persisted (snd (runOps
      (take 3 [(clk0, OpStart), (clk0, OpCancel), (clk1, OpStart)])
      (dash0 25, store_of [sess ''a'' True False 0])))) \<le> 1"
    by blast
  from C2_at_most_one_active [where st = "store_of [sess ''a'' True False 0, sess ''b'' True False 0]"
      and xs = "[sess ''a'' True False 0, sess ''b'' True False 0]" and m = "dash0 25"
      and clk = clk0] g
  have b: "activeCount (persisted (snd (fst (startNewSession clk0
      (dash0 25, store_of [sess ''a'' True False 0, sess ''b'' True False 0]))))) = 1"
    by blast
  from a b show ?thesis
    by simp
qed

lemma int64_id: "in_int64 x \<Longrightarrow> int64 x = x"
  by (simp add: in_int64_def int64_def)

lemma takeWhile_short: "\<exists>x \<in> set xs. \<not> P x \<Longrightarrow> length (takeWhile P xs) < length xs"
  by (induction xs) auto

lemma upsert_mem: "s \<in> set (upsert xs s)"
proof (cases "\<exists>x \<in> set xs. ID x = ID s")
  case True
  then have "length (takeWhile (\<lambda>x. ID x \<noteq> ID s) xs) < length xs"
    by (intro takeWhile_short) simp
  then show ?thesis
    using True by (simp add: upsert_present set_update_memI)
next
  case False
  then show ?thesis by (simp add: upsert_absent)
qed

lemma SaveSession_ok:
  "GetAllSessions st = Inr xs \<Longrightarrow> writable st \<Longrightarrow>
   SaveSession st s = (st\<lparr>sessionsFile := Stored (upsert xs s)\<rparr>, None)"
  by (simp add: SaveSession_def writeSessions_def)

lemma SaveSession_mem:
  "GetAllSessions st = Inr xs \<Longrightarrow> writable st \<Longrightarrow> s \<in> set (persisted (fst (SaveSession st s)))"
  by (simp add: SaveSession_ok persisted_def upsert_mem)

lemma SaveSession_readable:
  "GetAllSessions st = Inr xs \<Longrightarrow> \<exists>ys. GetAllSessions (fst (SaveSession st s)) = Inr ys"
  by (auto simp: SaveSession_def writeSessions_def GetAllSessions_def)

lemma SaveSession_writable: "writable (fst (SaveSession st s)) = writable st"
  by (auto simp: SaveSession_def writeSessions_def split: sum.splits)

lemma dash_tick_running:
  assumes "timerRunning m" "\<not> timerPaused m" "in_int64 (timerElapsed m + 1)"
    "timerElapsed m + 1 < timerDuration m"
  shows "timerElapsed (fst (fst (Update clk TickMsg (m, st)))) = timerElapsed m + 1
       \<and> timerRunning (fst (fst (Update clk TickMsg (m, st))))
       \<and> snd (Update clk TickMsg (m, st)) = CmdTick"
  using assms
  by (auto simp: Update_def tickUpdate_def int64_id Let_def split: option.splits)

lemma dash_tick_completes:
  assumes run: "timerRunning m" "\<not> timerPaused m" and rng: "in_int64 (timerElapsed m + 1)"
    and reach: "timerDuration m \<le> timerElapsed m + 1"
    and a: "activeSession m = Some a" and rd: "GetAllSessions st = Inr xs" and wr: "writable st"
  shows "\<exists>st'. Update clk TickMsg (m, st) =
            ((m\<lparr>activeSession := None, timerRunning := False, timerPaused := False,
                timerElapsed := 0\<rparr>, st'), CmdOther)
          \<and> a\<lparr>EndTime := c_now clk, Completed := True, Active := False,
               ElapsedSeconds := timerElapsed m + 1\<rparr> \<in> set (persisted st')"
proof (cases "go_mod (timerElapsed m + 1) 10 = 0")
  case True
  obtain ys where ys: "GetAllSessions (fst (SaveSession st
      (a\<lparr>ElapsedSeconds := timerElapsed m + 1\<rparr>))) = Inr ys"
    using SaveSession_readable [OF rd] by blast
  have w: "writable (fst (SaveSession st (a\<lparr>ElapsedSeconds := timerElapsed m + 1\<rparr>)))"
    using wr by (simp add: SaveSession_writable)
  show ?thesis
    using True run rng reach a SaveSession_mem [OF ys w]
    by (simp add: Update_def tickUpdate_def completeSession_def int64_id Let_def)
next
  case False
  show ?thesis
    using False run rng reach a SaveSession_mem [OF rd wr]
    by (simp add: Update_def tickUpdate_def completeSession_def int64_id Let_def)
qed

lemma dash_tick_stopped:
  "\<not> timerRunning m \<Longrightarrow> Update clk TickMsg (m, st) = ((m, st), CmdNone)"
  by (simp add: Update_def tickUpdate_def)


text \<open>Evaluations of the model at concrete stores.\<close>

lemma new45: "New 3700000000000 store30 = (store30, Inr dash45)"
  by (simp add: New_def GetConfig_def GetActiveSession_def GetAllSessions_def store30_def
      act30_def dash45_def Seconds_def Sub_def go_div_def int64_def Let_def)

lemma tick45:
  "Update clk1 TickMsg (dash45, store30) =
     ((dash45\<lparr>activeSession := None, timerRunning := False, timerElapsed := 0\<rparr>,
       store30\<lparr>sessionsFile := Stored [act30\<lparr>EndTime := 5000000000000, Completed := True,
          Active := False, ElapsedSeconds := 1801\<rparr>]\<rparr>), CmdOther)"
  by (simp add: Update_def tickUpdate_def completeSession_def SaveSession_def upsert_def
      GetAllSessions_def writeSessions_def store30_def act30_def dash45_def clk1_def
      go_mod_def go_div_def int64_def Let_def)

lemma scen_dash:
  "ticks 60 clk1 (fst (Update clk0 (KeyMsg KStart) (dash0 1, store_of []))) =
     ((dash0 1)\<lparr>activeSession := None, timerRunning := False, timerPaused := False,
        timerElapsed := 0, timerDuration := 60\<rparr>,
      store_of [started1\<lparr>EndTime := 5000000000000, Completed := True, Active := False,
        ElapsedSeconds := 60\<rparr>])"
  by (simp add: eval_nat_numeral Update_def tickUpdate_def completeSession_def startNewSession_def
      SaveSession_def DeactivateAllSessions_def upsert_def started1_def
      GetAllSessions_def writeSessions_def store_of_def dash0_def clk0_def clk1_def
      go_mod_def go_div_def int64_def Let_def)

lemma scen_timer:
  "timerTicks 60 clk1 (fst (timerUpdate clk0 (TKeyMsg TStart) (timerNew 1, store_of []))) =
     ((timerNew 1)\<lparr>elapsed := 60, running := False, finished := True,
        currentSession := Some (started1\<lparr>EndTime := 5000000000000, Completed := True,
          Active := False, ElapsedSeconds := 60\<rparr>)\<rparr>,
      store_of [started1\<lparr>EndTime := 5000000000000, Completed := True, Active := False,
        ElapsedSeconds := 60\<rparr>])"
  by (simp add: eval_nat_numeral timerUpdate_def timerTick_def timerKey_def saveCurrent_def
      timerNew_def SaveSession_def DeactivateAllSessions_def upsert_def started1_def
      GetAllSessions_def writeSessions_def store_of_def clk0_def clk1_def
      go_mod_def go_div_def int64_def Let_def)


text \<open>
  C5. The store holds an active, not paused session of 30 planned minutes that started 45
  minutes ago. \<open>New\<close> clamps the elapsed time to 1800 seconds; the first tick increments
  it to 1801 before comparing it with the duration, and \<open>completeSession\<close> stores the
  session as completed with 1801 elapsed seconds, more than the 1800 planned.
\<close>

theorem C5_overshoot_after_restart:
  "New 3700000000000 store30 = (store30, Inr dash45)
   \<and> Update clk1 TickMsg (dash45, store30) =
     ((dash45\<lparr>activeSession := None, timerRunning := False, timerElapsed := 0\<rparr>,
       store30\<lparr>sessionsFile := Stored [act30\<lparr>EndTime := 5000000000000, Completed := True,
          Active := False, ElapsedSeconds := 1801\<rparr>]\<rparr>), CmdOther)
   \<and> Duration act30 * 60 = 1800"
  using new45 tick45 by (simp add: act30_def)


lemma GetConfig_sessions: "sessionsFile (fst (GetConfig st)) = sessionsFile st"
  by (auto simp: GetConfig_def SaveConfig_def split: diskfile.splits)






lemma timer_tick_running:
  assumes "running m" "\<not> paused m" "\<not> finished m" "in_int64 (elapsed m + 1)"
    "elapsed m + 1 < duration m"
  shows "elapsed (fst (fst (timerUpdate clk TTickMsg (m, st)))) = elapsed m + 1
       \<and> running (fst (fst (timerUpdate clk TTickMsg (m, st))))
       \<and> snd (timerUpdate clk TTickMsg (m, st)) = CmdTick"
  using assms
  by (auto simp: timerUpdate_def timerTick_def saveCurrent_def int64_id Let_def
      split: option.splits)

lemma timer_tick_stopped:
  "\<not> running m \<Longrightarrow> timerUpdate clk TTickMsg (m, st) = ((m, st), CmdNone)"
  by (simp add: timerUpdate_def timerTick_def)

lemma timer_tick_completes:
  assumes run: "running m" "\<not> paused m" "\<not> finished m" and rng: "in_int64 (elapsed m + 1)"
    and reach: "duration m \<le> elapsed m + 1"
    and a: "currentSession m = Some a" and rd: "GetAllSessions st = Inr xs" and wr: "writable st"
  shows "\<exists>m' st' c. timerUpdate clk TTickMsg (m, st) = ((m', st'), CmdQuit)
          \<and> finished m' \<and> \<not> running m' \<and> elapsed m' = elapsed m + 1
          \<and> currentSession m' = Some c \<and> c \<in> set (persisted st')
          \<and> ID c = ID a \<and> Completed c \<and> \<not> Active c \<and> EndTime c = c_now clk"
proof (cases "go_mod (elapsed m + 1) 10 = 0")
  case True
  obtain ys where ys: "GetAllSessions (fst (SaveSession st
      (a\<lparr>ElapsedSeconds := elapsed m + 1\<rparr>))) = Inr ys"
    using SaveSession_readable [OF rd] by blast
  have w: "writable (fst (SaveSession st (a\<lparr>ElapsedSeconds := elapsed m + 1\<rparr>)))"
    using wr by (simp add: SaveSession_writable)
  show ?thesis
    using True run rng reach a SaveSession_mem [OF ys w]
    by (simp add: timerUpdate_def timerTick_def saveCurrent_def int64_id Let_def)
next
  case False
  show ?thesis
    using False run rng reach a SaveSession_mem [OF rd wr]
    by (simp add: timerUpdate_def timerTick_def saveCurrent_def int64_id Let_def)
qed

lemma start_duration:
  "timerDuration (fst (fst (startNewSession clk (m, st)))) = int64 (SessionDuration (config m) * 60)
   \<and> (\<exists>s. activeSession (fst (fst (startNewSession clk (m, st)))) = Some s
        \<and> Duration s = SessionDuration (config m) \<and> ElapsedSeconds s = 0 \<and> Active s
        \<and> \<not> Paused s \<and> \<not> Completed s)
   \<and> timerElapsed (fst (fst (startNewSession clk (m, st)))) = 0
   \<and> timerRunning (fst (fst (startNewSession clk (m, st))))
   \<and> \<not> timerPaused (fst (fst (startNewSession clk (m, st))))"
  by (simp add: startNewSession_def Let_def)


text \<open>
  C4. In the dashboard and in the timer view alike, a tick of a running, not paused timer
  adds one to the elapsed seconds (the sum fitting in 64 bits); while the result is below the duration the timer keeps
  running and the tick is re-armed. When the result reaches the duration (which start and
  \<open>New\<close> set to the planned minutes times 60) the session is stored with the end time
  of now, completed and not active, the timer stops, and further ticks change nothing. A
  session started with one planned minute is, after 60 ticks, stored as completed, not
  active, with 60 elapsed seconds.
\<close>

theorem C4_tick_and_completion:
  "(timerRunning m \<and> \<not> timerPaused m \<and> in_int64 (timerElapsed m + 1) \<longrightarrow>
      (timerElapsed m + 1 < timerDuration m \<longrightarrow>
         timerElapsed (fst (fst (Update clk TickMsg (m, st)))) = timerElapsed m + 1
         \<and> timerRunning (fst (fst (Update clk TickMsg (m, st))))
         \<and> snd (Update clk TickMsg (m, st)) = CmdTick)
    \<and> (timerDuration m \<le> timerElapsed m + 1 \<and> activeSession m = Some a
         \<and> GetAllSessions st = Inr xs \<and> writable st \<longrightarrow>
         (\<exists>m' st'. Update clk TickMsg (m, st) = ((m', st'), CmdOther)
            \<and> \<not> timerRunning m' \<and> activeSession m' = None
            \<and> a\<lparr>EndTime := c_now clk, Completed := True, Active := False,
                 ElapsedSeconds := timerElapsed m + 1\<rparr> \<in> set (persisted st')
            \<and> (\<forall>clk'. Update clk' TickMsg (m', st') = ((m', st'), CmdNone)))))
 \<and> (running t \<and> \<not> paused t \<and> \<not> finished t \<and> in_int64 (elapsed t + 1) \<longrightarrow>
      (elapsed t + 1 < duration t \<longrightarrow>
         elapsed (fst (fst (timerUpdate clk TTickMsg (t, st)))) = elapsed t + 1
         \<and> running (fst (fst (timerUpdate clk TTickMsg (t, st))))
         \<and> snd (timerUpdate clk TTickMsg (t, st)) = CmdTick)
    \<and> (duration t \<le> elapsed t + 1 \<and> currentSession t = Some b
         \<and> GetAllSessions st = Inr xs \<and> writable st \<longrightarrow>
         (\<exists>t' st' c. timerUpdate clk TTickMsg (t, st) = ((t', st'), CmdQuit)
            \<and> finished t' \<and> \<not> running t' \<and> elapsed t' = elapsed t + 1
            \<and> c \<in> set (persisted st') \<and> ID c = ID b \<and> Completed c \<and> \<not> Active c
            \<and> EndTime c = c_now clk
            \<and> (\<forall>clk'. timerUpdate clk' TTickMsg (t', st') = ((t', st'), CmdNone)))))
 \<and> timerDuration (fst (fst (startNewSession clk (m, st))))
      = int64 (SessionDuration (config m) * 60)
 \<and> (\<exists>s. activeSession (fst (fst (startNewSession clk (m, st)))) = Some s
        \<and> Duration s = SessionDuration (config m))
 \<and> ticks 60 clk1 (fst (Update clk0 (KeyMsg KStart) (dash0 1, store_of []))) =
     ((dash0 1)\<lparr>activeSession := None, timerRunning := False, timerPaused := False,
        timerElapsed := 0, timerDuration := 60\<rparr>,
      store_of [started1\<lparr>EndTime := 5000000000000, Completed := True, Active := False,
        ElapsedSeconds := 60\<rparr>])
 \<and> timerTicks 60 clk1 (fst (timerUpdate clk0 (TKeyMsg TStart) (timerNew 1, store_of []))) =
     ((timerNew 1)\<lparr>elapsed := 60, running := False, finished := True,
        currentSession := Some (started1\<lparr>EndTime := 5000000000000, Completed := True,
          Active := False, ElapsedSeconds := 60\<rparr>)\<rparr>,
      store_of [started1\<lparr>EndTime := 5000000000000, Completed := True, Active := False,
        ElapsedSeconds := 60\<rparr>])"
proof -
  have d1: "timerElapsed (fst (fst (Update clk TickMsg (m, st)))) = timerElapsed m + 1
         \<and> timerRunning (fst (fst (Update clk TickMsg (m, st))))
         \<and> snd (Update clk TickMsg (m, st)) = CmdTick"
    if "timerRunning m" "\<not> timerPaused m" "in_int64 (timerElapsed m + 1)"
       "timerElapsed m + 1 < timerDuration m"
    using that by (rule dash_tick_running)
  have d2: "\<exists>m' st'. Update clk TickMsg (m, st) = ((m', st'), CmdOther)
            \<and> \<not> timerRunning m' \<and> activeSession m' = None
            \<and> a\<lparr>EndTime := c_now clk, Completed := True, Active := False,
                 ElapsedSeconds := timerElapsed m + 1\<rparr> \<in> set (persisted st')
            \<and> (\<forall>clk'. Update clk' TickMsg (m', st') = ((m', st'), CmdNone))"
    if h: "timerRunning m" "\<not> timerPaused m" "in_int64 (timerElapsed m + 1)"
       "timerDuration m \<le> timerElapsed m + 1" "activeSession m = Some a"
       "GetAllSessions st = Inr xs" "writable st"
  proof -
    from dash_tick_completes [OF h, of clk] obtain st' where
      u: "Update clk TickMsg (m, st) =
            ((m\<lparr>activeSession := None, timerRunning := False, timerPaused := False,
                timerElapsed := 0\<rparr>, st'), CmdOther)"
      and p: "a\<lparr>EndTime := c_now clk, Completed := True, Active := False,
               ElapsedSeconds := timerElapsed m + 1\<rparr> \<in> set (persisted st')"
      by blast
    have "\<forall>clk'. Update clk' TickMsg (m\<lparr>activeSession := None, timerRunning := False,
        timerPaused := False, timerElapsed := 0\<rparr>, st')
        = ((m\<lparr>activeSession := None, timerRunning := False, timerPaused := False,
              timerElapsed := 0\<rparr>, st'), CmdNone)"
      by (simp add: dash_tick_stopped)
    with u p show ?thesis by simp
  qed
  have t1: "elapsed (fst (fst (timerUpdate clk TTickMsg (t, st)))) = elapsed t + 1
         \<and> running (fst (fst (timerUpdate clk TTickMsg (t, st))))
         \<and> snd (timerUpdate clk TTickMsg (t, st)) = CmdTick"
    if "running t" "\<not> paused t" "\<not> finished t" "in_int64 (elapsed t + 1)"
       "elapsed t + 1 < duration t"
    using that by (rule timer_tick_running)
  have t2: "\<exists>t' st' c. timerUpdate clk TTickMsg (t, st) = ((t', st'), CmdQuit)
            \<and> finished t' \<and> \<not> running t' \<and> elapsed t' = elapsed t + 1
            \<and> c \<in> set (persisted st') \<and> ID c = ID b \<and> Completed c \<and> \<not> Active c
            \<and> EndTime c = c_now clk
            \<and> (\<forall>clk'. timerUpdate clk' TTickMsg (t', st') = ((t', st'), CmdNone))"
    if h: "running t" "\<not> paused t" "\<not> finished t" "in_int64 (elapsed t + 1)"
       "duration t \<le> elapsed t + 1" "currentSession t = Some b"
       "GetAllSessions st = Inr xs" "writable st"
  proof -
    from timer_tick_completes [OF h, of clk] obtain t' st' c where
      u: "timerUpdate clk TTickMsg (t, st) = ((t', st'), CmdQuit)"
      and f: "finished t'" "\<not> running t'" "elapsed t' = elapsed t + 1"
        "c \<in> set (persisted st')" "ID c = ID b" "Completed c" "\<not> Active c"
        "EndTime c = c_now clk"
      by blast
    from f(2) have "\<forall>clk'. timerUpdate clk' TTickMsg (t', st') = ((t', st'), CmdNone)"
      by (simp add: timer_tick_stopped)
    with u f show ?thesis by blast
  qed
  note s = start_duration [of clk m st]
  from d1 d2 t1 t2 s scen_dash scen_timer show ?thesis
    by blast
qed


theorem C4_tick_and_completion_witness:
  "(\<exists>m' st'. Update clk1 TickMsg (dash59, store_of [started1]) = ((m', st'), CmdOther)
      \<and> \<not> timerRunning m' \<and> activeSession m' = None
      \<and> started1\<lparr>EndTime := c_now clk1, Completed := True, Active := False,
           ElapsedSeconds := 60\<rparr> \<in> set (persisted st'))
   \<and> (\<exists>t' st' c. timerUpdate clk1 TTickMsg (timer59, store_of [started1]) = ((t', st'), CmdQuit)
      \<and> finished t' \<and> \<not> running t' \<and> elapsed t' = 60
      \<and> c \<in> set (persisted st') \<and> Completed c \<and> \<not> Active c)"
proof -
  have h1: "timerRunning dash59 \<and> \<not> timerPaused dash59 \<and> in_int64 (timerElapsed dash59 + 1)"
    by (simp add: dash59_def in_int64_def)
  have h2: "timerDuration dash59 \<le> timerElapsed dash59 + 1
      \<and> activeSession dash59 = Some started1
      \<and> GetAllSessions (store_of [started1]) = Inr [started1] \<and> writable (store_of [started1])"
    by (simp add: dash59_def GetAllSessions_def store_of_def)
  have h3: "running timer59 \<and> \<not> paused timer59 \<and> \<not> finished timer59
      \<and> in_int64 (elapsed timer59 + 1)"
    by (simp add: timer59_def in_int64_def)
  have h4: "duration timer59 \<le> elapsed timer59 + 1 \<and> currentSession timer59 = Some started1"
    by (simp add: timer59_def)
  have e: "timerElapsed dash59 + 1 = 60" "elapsed timer59 + 1 = 60"
    by (simp_all add: dash59_def timer59_def)
  note c4 = C4_tick_and_completion [where m = dash59 and clk = clk1
      and st = "store_of [started1]" and a = started1 and xs = "[started1]"
      and t = timer59 and b = started1]
  from c4 h1 h2 have
    "\<exists>m' st'. Update clk1 TickMsg (dash59, store_of [started1]) = ((m', st'), CmdOther)
      \<and> \<not> timerRunning m' \<and> activeSession m' = None
      \<and> started1\<lparr>EndTime := c_now clk1, Completed := True, Active := False,
           ElapsedSeconds := timerElapsed dash59 + 1\<rparr> \<in> set (persisted st')"
    by blast
  moreover from c4 h2 h3 h4 have
    "\<exists>t' st' c. timerUpdate clk1 TTickMsg (timer59, store_of [started1]) = ((t', st'), CmdQuit)
      \<and> finished t' \<and> \<not> running t' \<and> elapsed t' = elapsed timer59 + 1
      \<and> c \<in> set (persisted st') \<and> Completed c \<and> \<not> Active c"
    by blast
  ultimately show ?thesis
    by (simp only: e)
qed










end
